theory Spec2Isabelle
  imports Complex_Main
begin

section \<open>Python values\<close>

text \<open>
  The values that flow through the program are decoded JSON documents and the
  dictionaries the normalizers build from them. A Python \<open>dict\<close> is an association
  list in insertion order; \<open>None\<close> is \<open>JNull\<close>. A Python \<open>float\<close> is kept as the
  text of its literal (its \<open>repr\<close>): floating-point rounding is not modelled.
  Python strings are HOL strings.
\<close>

datatype json =
    JNull
  | JBool bool
  | JInt int
  | JFloat string
  | JStr string
  | JList "json list"
  | JDict "(string \<times> json) list"

datatype py_exn =
    IndexError
  | AttributeError
  | JSONDecodeError
  | KeyError string
  | ValueError string
  | OtherException string

text \<open>\<open>isinstance(v, dict)\<close>, \<open>isinstance(v, list)\<close>, \<open>isinstance(v, str)\<close>.\<close>

fun is_dict :: "json \<Rightarrow> bool" where
  "is_dict (JDict _) = True"
| "is_dict _ = False"

fun is_list :: "json \<Rightarrow> bool" where
  "is_list (JList _) = True"
| "is_list _ = False"

fun is_str :: "json \<Rightarrow> bool" where
  "is_str (JStr _) = True"
| "is_str _ = False"

text \<open>
  Truth value testing (\<open>not v\<close>, \<open>a or b\<close>): \<open>None\<close>, \<open>False\<close>, zero, and the empty
  string, list and dict are false. A float literal is zero when its mantissa has no
  non-zero digit.
\<close>

definition float_nonzero :: "string \<Rightarrow> bool" where
  "float_nonzero t =
     (t \<in> {''NaN'', ''Infinity'', ''-Infinity''} \<or>
      (\<exists>c \<in> set (takeWhile (\<lambda>c. c \<noteq> CHR ''e'' \<and> c \<noteq> CHR ''E'') t).
          c \<in> set ''123456789''))"

fun truthy :: "json \<Rightarrow> bool" where
  "truthy JNull = False"
| "truthy (JBool b) = b"
| "truthy (JInt i) = (i \<noteq> 0)"
| "truthy (JFloat t) = float_nonzero t"
| "truthy (JStr s) = (s \<noteq> [])"
| "truthy (JList xs) = (xs \<noteq> [])"
| "truthy (JDict kvs) = (kvs \<noteq> [])"

text \<open>\<open>a or b\<close> returns \<open>a\<close> when it is true, else \<open>b\<close>.\<close>

definition py_or :: "json \<Rightarrow> json \<Rightarrow> json" where
  "py_or a b = (if truthy a then a else b)"

text \<open>\<open>k in d\<close>, \<open>d.get(k)\<close>, \<open>d.get(k, default)\<close> and \<open>d[k]\<close> on a dict.\<close>

definition has_key :: "(string \<times> json) list \<Rightarrow> string \<Rightarrow> bool" where
  "has_key d k = (map_of d k \<noteq> None)"

definition get_default :: "(string \<times> json) list \<Rightarrow> string \<Rightarrow> json \<Rightarrow> json" where
  "get_default d k dflt = (case map_of d k of None \<Rightarrow> dflt | Some v \<Rightarrow> v)"

definition get :: "(string \<times> json) list \<Rightarrow> string \<Rightarrow> json" where
  "get d k = get_default d k JNull"

text \<open>The test \<open>isinstance(data, dict) and "error" in data\<close> used throughout.\<close>

fun is_error :: "json \<Rightarrow> bool" where
  "is_error (JDict d) = has_key d ''error''"
| "is_error _ = False"

text \<open>
  A replacement field of an f-string, \<open>f"{v}"\<close>: a string is inserted as it is; for
  any other value Python's \<open>str()\<close> is the parameter \<open>fmt\<close>.
\<close>

definition py_format :: "(json \<Rightarrow> string) \<Rightarrow> json \<Rightarrow> string" where
  "py_format fmt v = (case v of JStr s \<Rightarrow> s | _ \<Rightarrow> fmt v)"

section \<open>The rate-limited client (tools/fmp\_tool.py)\<close>

text \<open>
  \<open>FMPTool\<close> keeps the budget and the window of request timestamps. Time is a real
  number of seconds. What a call does to the outside world is recorded as a list of
  events: a \<open>Sleep d\<close> for \<open>time.sleep(d)\<close>, and a \<open>NetCall endpoint window\<close> for
  \<open>requests.get\<close>, carrying the window as it is when the request is issued.
\<close>

record FMPTool =
  api_key :: string
  max_rpm :: int
  request_times :: "real list"

datatype event = Sleep real | NetCall string "real list"

text \<open>
  What the network call does, by the handler of \<open>_make_request\<close> that receives it:
  the four exception classes caught by name (with \<open>str(e)\<close> where the handler uses it),
  any other \<open>Exception\<close>, or a decoded body.
\<close>

datatype response =
    HTTPError string
  | Timeout
  | RequestException string
  | InvalidJSON
  | Unexpected string
  | Body json

text \<open>
  The environment of one call of \<open>_make_request\<close>: the clock read on entry, the clock
  read after the sleep (used only when the call sleeps), and the outcome of the
  network call.
\<close>

record call_env =
  now :: real
  later :: real
  outcome :: response

text \<open>\<open>__init__\<close>: an empty window (the api key is required to be non-empty).\<close>

definition init_tool :: "string \<Rightarrow> int \<Rightarrow> py_exn + FMPTool" where
  "init_tool key rpm =
     (if key = [] then Inl (ValueError ''FMP API key is required'')
      else Inr \<lparr>api_key = key, max_rpm = rpm, request_times = []\<rparr>)"

definition prune :: "real \<Rightarrow> real list \<Rightarrow> real list" where
  "prune current_time ts = filter (\<lambda>t. current_time - t < 60) ts"

text \<open>
  Lines 51 to 66: the rate limiter. It returns the value of \<open>current_time\<close>, the
  window and the events so far. \<open>self.request_times[0]\<close> raises \<open>IndexError\<close> on an
  empty window.
\<close>

definition rate_limit :: "FMPTool \<Rightarrow> call_env \<Rightarrow> py_exn + (real \<times> real list \<times> event list)" where
  "rate_limit self env =
     (let current_time = now env;
          rt = prune current_time (request_times self)
      in if int (length rt) \<ge> max_rpm self then
           (case rt of
              [] \<Rightarrow> Inl IndexError
            | t0 # _ \<Rightarrow>
                let wait_time = 60 - (current_time - t0)
                in if wait_time > 0
                   then Inr (later env, prune (later env) rt, [Sleep wait_time])
                   else Inr (current_time, rt, []))
         else Inr (current_time, rt, []))"

definition error_dict :: "string \<Rightarrow> json" where
  "error_dict msg = JDict [(''error'', JStr msg)]"

text \<open>Lines 82 to 125: the body turned into data or into an error dictionary.\<close>

definition handle_response :: "(json \<Rightarrow> string) \<Rightarrow> string \<Rightarrow> response \<Rightarrow> json" where
  "handle_response fmt endpoint r =
     (case r of
        Body data \<Rightarrow>
          (case data of
             JDict d \<Rightarrow>
               if truthy (py_or (get d ''Error Message'') (get d ''error''))
               then error_dict (''FMP API error: '' @
                      py_format fmt (py_or (get d ''Error Message'') (get d ''error'')))
               else if \<not> truthy data
               then error_dict (''Empty response from FMP API for '' @ endpoint)
               else data
           | _ \<Rightarrow>
               if \<not> truthy data
               then error_dict (''Empty response from FMP API for '' @ endpoint)
               else data)
      | HTTPError s \<Rightarrow> error_dict (''HTTP error: '' @ s)
      | Timeout \<Rightarrow> error_dict (''Request to '' @ endpoint @ '' timed out after 10 seconds'')
      | RequestException s \<Rightarrow> error_dict (''Request error: '' @ s)
      | InvalidJSON \<Rightarrow> error_dict ''Invalid JSON response from FMP API''
      | Unexpected s \<Rightarrow> error_dict (''Unexpected error: '' @ s))"

text \<open>
  \<open>_make_request\<close>: rate limiting, then the timestamp is appended, then the network
  call. The result is the returned value, the updated client and the events.
\<close>

definition make_request ::
  "(json \<Rightarrow> string) \<Rightarrow> FMPTool \<Rightarrow> string \<Rightarrow> call_env \<Rightarrow> py_exn + (json \<times> FMPTool \<times> event list)" where
  "make_request fmt self endpoint env =
     (case rate_limit self env of
        Inl e \<Rightarrow> Inl e
      | Inr (current_time, rt, evs) \<Rightarrow>
          let rt' = rt @ [current_time]
          in Inr (handle_response fmt endpoint (outcome env),
                  self\<lparr>request_times := rt'\<rparr>,
                  evs @ [NetCall endpoint rt']))"


section \<open>The normalizers (tools/fmp\_tool.py)\<close>

text \<open>
  \<open>str.strip()\<close> and \<open>str.upper()\<close>. A character is a code point below 256. The
  white space of \<open>str.isspace\<close> in that range is 9 to 13, 28 to 32, 133 and 160.
  \<open>upper\<close> maps a to z and the accented lower-case letters 224 to 254 (but 247, the
  division sign) 32 places down and the sharp s (223) to SS; the upper-case forms of
  181 and 255 lie beyond code point 255 and those two characters are left as they are.
\<close>

definition is_space :: "char \<Rightarrow> bool" where
  "is_space c =
     (let n = (of_char c :: nat)
      in (9 \<le> n \<and> n \<le> 13) \<or> (28 \<le> n \<and> n \<le> 32) \<or> n = 133 \<or> n = 160)"

definition strip :: "string \<Rightarrow> string" where
  "strip s = rev (dropWhile is_space (rev (dropWhile is_space s)))"

definition upper_char :: "char \<Rightarrow> string" where
  "upper_char c =
     (let n = (of_char c :: nat)
      in if (97 \<le> n \<and> n \<le> 122) \<or> (224 \<le> n \<and> n \<le> 254 \<and> n \<noteq> 247)
         then [char_of (n - 32)]
         else if n = 223 then ''SS''
         else [c])"

definition upper :: "string \<Rightarrow> string" where
  "upper s = concat (map upper_char s)"

text \<open>\<open>r.get(k)\<close> and \<open>r.get(k, default)\<close> on a value that need not be a dict.\<close>

definition rec_get_default :: "json \<Rightarrow> string \<Rightarrow> json \<Rightarrow> py_exn + json" where
  "rec_get_default r k dflt =
     (case r of JDict d \<Rightarrow> Inr (get_default d k dflt) | _ \<Rightarrow> Inl AttributeError)"

text \<open>
  A group of \<open>out: r.get(key, default)\<close> entries of a dict display, evaluated in
  order; the first \<open>.get\<close> on a value that is not a dict raises.
\<close>

fun entries :: "json \<Rightarrow> (string \<times> string \<times> json) list \<Rightarrow> py_exn + (string \<times> json) list" where
  "entries r [] = Inr []"
| "entries r ((out, key, dflt) # rest) =
     (case rec_get_default r key dflt of
        Inl e \<Rightarrow> Inl e
      | Inr v \<Rightarrow> (case entries r rest of Inl e \<Rightarrow> Inl e | Inr kvs \<Rightarrow> Inr ((out, v) # kvs)))"

definition get_company_profile ::
  "(json \<Rightarrow> string) \<Rightarrow> FMPTool \<Rightarrow> json \<Rightarrow> call_env \<Rightarrow> py_exn + (json \<times> FMPTool \<times> event list)" where
  "get_company_profile fmt self ticker env =
     (case ticker of
        JStr raw \<Rightarrow>
          if \<not> truthy ticker then
            Inr (JDict [(''error'', JStr ''Invalid ticker symbol''),
                        (''name'', JStr ''Unknown''),
                        (''industry'', JStr ''Unknown''),
                        (''sector'', JStr ''Unknown''),
                        (''description'', JStr ''Please provide a valid ticker symbol (e.g., AAPL, MSFT)'')],
                 self, [])
          else
            let ticker = upper (strip raw)
            in if ticker = [] then
                 Inr (JDict [(''error'', JStr ''Empty ticker symbol''),
                             (''name'', JStr ''Unknown''),
                             (''description'', JStr ''Please provide a valid ticker symbol'')],
                      self, [])
               else
                 (case make_request fmt self (''profile/'' @ ticker) env of
                    Inl e \<Rightarrow> Inl e
                  | Inr (data, self', evs) \<Rightarrow>
                      if is_error data then
                        (case data of
                           JDict d \<Rightarrow>
                             Inr (JDict [(''error'', get d ''error''),
                                         (''name'', JStr ticker),
                                         (''industry'', JStr ''Unknown''),
                                         (''sector'', JStr ''Unknown''),
                                         (''description'',
                                            JStr (''Could not retrieve company profile. '' @
                                                  py_format fmt (get d ''error'')))],
                                  self', evs)
                         | _ \<Rightarrow> Inl AttributeError)
                      else
                        (case data of
                           JList (profile # _) \<Rightarrow>
                             (case entries profile
                                     [(''name'', ''companyName'', JStr ticker),
                                      (''industry'', ''industry'', JStr ''Unknown''),
                                      (''sector'', ''sector'', JStr ''Unknown''),
                                      (''description'', ''description'', JStr ''No description available''),
                                      (''ceo'', ''ceo'', JStr ''Unknown''),
                                      (''website'', ''website'', JStr ''Unknown''),
                                      (''employees'', ''fullTimeEmployees'', JStr ''Unknown''),
                                      (''exchange'', ''exchange'', JStr ''Unknown''),
                                      (''marketCap'', ''mktCap'', JStr ''Unknown'')] of
                                Inl e \<Rightarrow> Inl e
                              | Inr kvs \<Rightarrow> Inr (JDict (kvs @ [(''symbol'', JStr ticker)]), self', evs))
                         | _ \<Rightarrow>
                             Inr (JDict [(''error'', JStr ''No company profile found''),
                                         (''name'', JStr ticker),
                                         (''industry'', JStr ''Unknown''),
                                         (''sector'', JStr ''Unknown''),
                                         (''description'',
                                            JStr (''No profile data was found for '' @ ticker @
                                                  ''. This might be an invalid ticker symbol or the company is not covered by the data provider.''))],
                                  self', evs)))
      | _ \<Rightarrow>
          Inr (JDict [(''error'', JStr ''Invalid ticker symbol''),
                      (''name'', JStr ''Unknown''),
                      (''industry'', JStr ''Unknown''),
                      (''sector'', JStr ''Unknown''),
                      (''description'', JStr ''Please provide a valid ticker symbol (e.g., AAPL, MSFT)'')],
               self, []))"

definition get_stock_quote ::
  "(json \<Rightarrow> string) \<Rightarrow> FMPTool \<Rightarrow> json \<Rightarrow> call_env \<Rightarrow> py_exn + (json \<times> FMPTool \<times> event list)" where
  "get_stock_quote fmt self ticker env =
     (case ticker of
        JStr raw \<Rightarrow>
          if \<not> truthy ticker then Inr (error_dict ''Invalid ticker symbol'', self, [])
          else
            let ticker = upper (strip raw)
            in (case make_request fmt self (''quote/'' @ ticker) env of
                  Inl e \<Rightarrow> Inl e
                | Inr (data, self', evs) \<Rightarrow>
                    if is_error data then
                      (case data of
                         JDict d \<Rightarrow> Inr (JDict [(''error'', get d ''error'')], self', evs)
                       | _ \<Rightarrow> Inl AttributeError)
                    else
                      (case data of
                         JList (quote # _) \<Rightarrow>
                           (case entries quote
                                   [(''price'', ''price'', JNull),
                                    (''change'', ''change'', JNull),
                                    (''percentChange'', ''changesPercentage'', JNull),
                                    (''dayLow'', ''dayLow'', JNull),
                                    (''dayHigh'', ''dayHigh'', JNull),
                                    (''yearLow'', ''yearLow'', JNull),
                                    (''yearHigh'', ''yearHigh'', JNull),
                                    (''marketCap'', ''marketCap'', JNull),
                                    (''volume'', ''volume'', JNull),
                                    (''avgVolume'', ''avgVolume'', JNull),
                                    (''pe'', ''pe'', JNull),
                                    (''eps'', ''eps'', JNull)] of
                              Inl e \<Rightarrow> Inl e
                            | Inr kvs \<Rightarrow> Inr (JDict (kvs @ [(''symbol'', JStr ticker)]), self', evs))
                       | _ \<Rightarrow>
                           Inr (JDict [(''error'', JStr ''No stock quote found''),
                                       (''symbol'', JStr ticker)],
                                self', evs)))
      | _ \<Rightarrow> Inr (error_dict ''Invalid ticker symbol'', self, []))"

text \<open>\<open>x[0] if isinstance(x, list) and len(x) > 0 else {}\<close>\<close>

fun first_record :: "json \<Rightarrow> json" where
  "first_record (JList (x # _)) = x"
| "first_record _ = JDict []"

text \<open>The four environments of \<open>get_key_financials\<close>, in the order of its requests.\<close>

record financials_env =
  ratios_env :: call_env
  income_env :: call_env
  balance_env :: call_env
  cash_flow_env :: call_env

text \<open>
  Lines 292 to 339 of \<open>get_key_financials\<close>: the check that all four requests
  failed, and the assembly of the four sections from the first records.
\<close>

definition assemble_financials :: "string \<Rightarrow> json \<Rightarrow> json \<Rightarrow> json \<Rightarrow> json \<Rightarrow> py_exn + json" where
  "assemble_financials ticker ratios income balance cash_flow =
     (if is_error ratios \<and> is_error income \<and> is_error balance \<and> is_error cash_flow
      then Inr (error_dict ''Could not retrieve financial data'')
      else
        (case entries (first_record ratios)
                [(''grossMargin'', ''grossProfitMarginTTM'', JNull),
                 (''operatingMargin'', ''operatingProfitMarginTTM'', JNull),
                 (''netMargin'', ''netProfitMarginTTM'', JNull),
                 (''roe'', ''returnOnEquityTTM'', JNull),
                 (''roa'', ''returnOnAssetsTTM'', JNull)] of
           Inl e \<Rightarrow> Inl e
         | Inr profitability \<Rightarrow>
        (case entries (first_record ratios)
                [(''pe'', ''priceEarningsRatioTTM'', JNull),
                 (''pb'', ''priceToBookRatioTTM'', JNull),
                 (''ps'', ''priceToSalesRatioTTM'', JNull),
                 (''pfcf'', ''priceToFreeCashFlowsRatioTTM'', JNull)] of
           Inl e \<Rightarrow> Inl e
         | Inr valuation \<Rightarrow>
        (case entries (first_record ratios)
                [(''currentRatio'', ''currentRatioTTM'', JNull),
                 (''debtToEquity'', ''debtEquityRatioTTM'', JNull),
                 (''interestCoverage'', ''interestCoverageTTM'', JNull)] of
           Inl e \<Rightarrow> Inl e
         | Inr health \<Rightarrow>
        (case entries (first_record income)
                [(''revenue'', ''revenue'', JNull),
                 (''netIncome'', ''netIncome'', JNull)] of
           Inl e \<Rightarrow> Inl e
         | Inr growth_income \<Rightarrow>
        (case entries (first_record balance)
                [(''totalAssets'', ''totalAssets'', JNull),
                 (''totalDebt'', ''totalDebt'', JNull)] of
           Inl e \<Rightarrow> Inl e
         | Inr growth_balance \<Rightarrow>
        (case entries (first_record cash_flow)
                [(''freeCashFlow'', ''freeCashFlow'', JNull)] of
           Inl e \<Rightarrow> Inl e
         | Inr growth_cash \<Rightarrow>
             Inr (JDict [(''profitability'', JDict profitability),
                         (''valuation'', JDict valuation),
                         (''health'', JDict health),
                         (''growth'', JDict (growth_income @ growth_balance @ growth_cash)),
                         (''symbol'', JStr ticker)]))))))))"

definition get_key_financials ::
  "(json \<Rightarrow> string) \<Rightarrow> FMPTool \<Rightarrow> json \<Rightarrow> financials_env \<Rightarrow> py_exn + (json \<times> FMPTool \<times> event list)" where
  "get_key_financials fmt self ticker envs =
     (case ticker of
        JStr raw \<Rightarrow>
          if \<not> truthy ticker then Inr (error_dict ''Invalid ticker symbol'', self, [])
          else
            let ticker = upper (strip raw)
            in
            (case make_request fmt self (''ratios-ttm/'' @ ticker) (ratios_env envs) of
               Inl e \<Rightarrow> Inl e
             | Inr (ratios, self1, evs1) \<Rightarrow>
            (case make_request fmt self1 (''income-statement/'' @ ticker) (income_env envs) of
               Inl e \<Rightarrow> Inl e
             | Inr (income, self2, evs2) \<Rightarrow>
            (case make_request fmt self2 (''balance-sheet-statement/'' @ ticker) (balance_env envs) of
               Inl e \<Rightarrow> Inl e
             | Inr (balance, self3, evs3) \<Rightarrow>
            (case make_request fmt self3 (''cash-flow-statement/'' @ ticker) (cash_flow_env envs) of
               Inl e \<Rightarrow> Inl e
             | Inr (cash_flow, self4, evs4) \<Rightarrow>
                 (case assemble_financials ticker ratios income balance cash_flow of
                    Inl e \<Rightarrow> Inl e
                  | Inr result \<Rightarrow> Inr (result, self4, evs1 @ evs2 @ evs3 @ evs4))))))
      | _ \<Rightarrow> Inr (error_dict ''Invalid ticker symbol'', self, []))"

text \<open>The loop of \<open>get_news_sentiment\<close> over the articles.\<close>

fun news_articles :: "json list \<Rightarrow> py_exn + json list" where
  "news_articles [] = Inr []"
| "news_articles (article # rest) =
     (case entries article
             [(''title'', ''title'', JStr ''No title''),
              (''date'', ''publishedDate'', JStr ''Unknown date''),
              (''source'', ''site'', JStr ''Unknown source''),
              (''url'', ''url'', JStr ''#''),
              (''summary'', ''text'', JStr ''No summary available'')] of
        Inl e \<Rightarrow> Inl e
      | Inr kvs \<Rightarrow>
          (case news_articles rest of Inl e \<Rightarrow> Inl e | Inr arts \<Rightarrow> Inr (JDict kvs # arts)))"

definition get_news_sentiment ::
  "(json \<Rightarrow> string) \<Rightarrow> FMPTool \<Rightarrow> json \<Rightarrow> call_env \<Rightarrow> py_exn + (json \<times> FMPTool \<times> event list)" where
  "get_news_sentiment fmt self ticker env =
     (case ticker of
        JStr raw \<Rightarrow>
          if \<not> truthy ticker then
            Inr (JDict [(''error'', JStr ''Invalid ticker symbol''), (''articles'', JList [])], self, [])
          else
            let ticker = upper (strip raw)
            in (case make_request fmt self ''stock_news'' env of
                  Inl e \<Rightarrow> Inl e
                | Inr (data, self', evs) \<Rightarrow>
                    if is_error data then
                      (case data of
                         JDict d \<Rightarrow>
                           Inr (JDict [(''error'', get d ''error''),
                                       (''articles'', JList []),
                                       (''symbol'', JStr ticker)],
                                self', evs)
                       | _ \<Rightarrow> Inl AttributeError)
                    else
                      (case data of
                         JList arts \<Rightarrow>
                           (case news_articles arts of
                              Inl e \<Rightarrow> Inl e
                            | Inr articles \<Rightarrow>
                                Inr (JDict [(''articles'', JList articles),
                                            (''count'', JInt (int (length articles))),
                                            (''symbol'', JStr ticker)],
                                     self', evs))
                       | _ \<Rightarrow>
                           Inr (JDict [(''error'', JStr ''No news found''),
                                       (''articles'', JList []),
                                       (''symbol'', JStr ticker)],
                                self', evs)))
      | _ \<Rightarrow> Inr (JDict [(''error'', JStr ''Invalid ticker symbol''), (''articles'', JList [])], self, []))"

section \<open>The analysis run (analysis.py)\<close>




record config =
  ticker :: string
  model :: string
  depth :: string
  process_type :: string
  temps :: "(string \<times> real) list option"
  investment_style :: string
  max_rpm_arg :: int
  verbose :: bool



text \<open>Sequencing of steps that may raise: the first exception ends the block.\<close>

definition then_do :: "py_exn + 'a \<Rightarrow> ('a \<Rightarrow> py_exn + 'b) \<Rightarrow> py_exn + 'b" where
  "then_do m f = (case m of Inl e \<Rightarrow> Inl e | Inr x \<Rightarrow> f x)"






section \<open>Observations and sample inputs\<close>

text \<open>The requests a trace issues, in order, and the trace of calls that never wait.\<close>

fun net_endpoints :: "event list \<Rightarrow> string list" where
  "net_endpoints [] = []"
| "net_endpoints (Sleep d # evs) = net_endpoints evs"
| "net_endpoints (NetCall ep w # evs) = ep # net_endpoints evs"


definition result_of :: "py_exn + (json \<times> FMPTool \<times> event list) \<Rightarrow> json option" where
  "result_of r = (case r of Inl e \<Rightarrow> None | Inr (v, self', evs) \<Rightarrow> Some v)"

definition events_of :: "py_exn + (json \<times> FMPTool \<times> event list) \<Rightarrow> event list option" where
  "events_of r = (case r of Inl e \<Rightarrow> None | Inr (v, self', evs) \<Rightarrow> Some evs)"

text \<open>A fresh client with the default budget, a clock standing at 0, and a \<open>str()\<close>.\<close>

definition demo_tool :: FMPTool where
  "demo_tool = \<lparr>api_key = ''demo'', max_rpm = 10, request_times = []\<rparr>"

definition demo_env :: "response \<Rightarrow> call_env" where
  "demo_env r = \<lparr>now = 0, later = 0, outcome = r\<rparr>"

definition no_fmt :: "json \<Rightarrow> string" where
  "no_fmt v = []"

text \<open>Environments of \<open>get_key_financials\<close>: only the ratios request fails; all four fail.\<close>

definition demo_financials :: financials_env where
  "demo_financials =
     \<lparr>ratios_env = demo_env Timeout,
      income_env = demo_env (Body (JList [JDict [(''revenue'', JInt 100), (''netIncome'', JInt 7)]])),
      balance_env = demo_env (Body (JList [JDict [(''totalAssets'', JInt 50)]])),
      cash_flow_env = demo_env (Body (JList [JDict [(''freeCashFlow'', JInt 3)]]))\<rparr>"

definition failed_financials :: financials_env where
  "failed_financials =
     \<lparr>ratios_env = demo_env Timeout, income_env = demo_env (HTTPError ''500''),
      balance_env = demo_env InvalidJSON, cash_flow_env = demo_env (Body (JList []))\<rparr>"




section \<open>Properties of the rate-limited client\<close>

lemma net_endpoints_append: "net_endpoints (xs @ ys) = net_endpoints xs @ net_endpoints ys"
  by (induction xs rule: net_endpoints.induct) auto


lemma rate_limit_total:
  assumes "1 \<le> max_rpm self"
  shows "\<exists>ct rt evs. rate_limit self env = Inr (ct, rt, evs) \<and> net_endpoints evs = []"
  using assms by (auto simp: rate_limit_def Let_def split: list.splits)

lemma make_request_total:
  assumes "1 \<le> max_rpm self"
  shows "\<exists>self' evs. make_request fmt self ep env =
             Inr (handle_response fmt ep (outcome env), self', evs)
           \<and> max_rpm self' = max_rpm self \<and> net_endpoints evs = [ep]"
proof -
  obtain ct rt evs where "rate_limit self env = Inr (ct, rt, evs)" "net_endpoints evs = []"
    using rate_limit_total[OF assms] by blast
  then show ?thesis
    by (simp add: make_request_def Let_def net_endpoints_append)
qed

lemma make_request_Inr:
  assumes "make_request fmt self ep env = Inr (v, self', evs)"
  shows "v = handle_response fmt ep (outcome env)"
  using assms
  by (auto simp: make_request_def Let_def split: sum.splits prod.splits)








section \<open>Properties of the normalizers\<close>


lemma entries_dict:
  "entries (JDict d) spec = Inr (map (\<lambda>(out, key, dflt). (out, get_default d key dflt)) spec)"
  by (induction spec) (auto simp: rec_get_default_def)

lemma news_articles_length: "news_articles arts = Inr xs \<Longrightarrow> length xs = length arts"
  by (induction arts arbitrary: xs) (auto simp del: entries.simps split: sum.splits)

lemma is_error_dict: "is_error v \<Longrightarrow> \<exists>d. v = JDict d \<and> has_key d ''error''"
  by (cases v) auto

lemma strip_AAPL: "upper (strip ''AAPL'') = ''AAPL''"
  by (simp add: upper_def strip_def is_space_def upper_char_def)

lemma strip_blank: "upper (strip ''   '') = []"
  by (simp add: upper_def strip_def is_space_def upper_char_def)

lemma demo_request:
  "make_request fmt demo_tool ep (demo_env r) =
     Inr (handle_response fmt ep r, demo_tool\<lparr>request_times := [0]\<rparr>, [NetCall ep [0]])"
  by (simp add: make_request_def rate_limit_def demo_tool_def demo_env_def prune_def Let_def)




lemma assemble_financials_cases:
  assumes "assemble_financials t ra inc bal cf = Inr r"
  shows "(is_error ra \<and> is_error inc \<and> is_error bal \<and> is_error cf
            \<and> r = error_dict ''Could not retrieve financial data'')
       \<or> (\<not> (is_error ra \<and> is_error inc \<and> is_error bal \<and> is_error cf)
            \<and> (\<exists>p v h g. r = JDict [(''profitability'', JDict p), (''valuation'', JDict v),
                     (''health'', JDict h), (''growth'', JDict g), (''symbol'', JStr t)]))"
proof (cases "is_error ra \<and> is_error inc \<and> is_error bal \<and> is_error cf")
  case True
  then show ?thesis using assms by (simp add: assemble_financials_def)
next
  case False
  show ?thesis using assms False unfolding assemble_financials_def if_not_P[OF False]
    by (auto simp del: entries.simps split: sum.splits)
qed

lemma get_key_financials_Inr:
  assumes "get_key_financials fmt self (JStr raw) envs = Inr (r, self', evs)" and "raw \<noteq> []"
  shows "assemble_financials (upper (strip raw))
           (handle_response fmt (''ratios-ttm/'' @ upper (strip raw)) (outcome (ratios_env envs)))
           (handle_response fmt (''income-statement/'' @ upper (strip raw)) (outcome (income_env envs)))
           (handle_response fmt (''balance-sheet-statement/'' @ upper (strip raw)) (outcome (balance_env envs)))
           (handle_response fmt (''cash-flow-statement/'' @ upper (strip raw)) (outcome (cash_flow_env envs)))
         = Inr r"
  using assms
  by (auto simp: get_key_financials_def Let_def split: sum.splits dest!: make_request_Inr)

lemma get_key_financials_value:
  assumes "1 \<le> max_rpm self" and "raw \<noteq> []"
    and "assemble_financials (upper (strip raw))
           (handle_response fmt (''ratios-ttm/'' @ upper (strip raw)) (outcome (ratios_env envs)))
           (handle_response fmt (''income-statement/'' @ upper (strip raw)) (outcome (income_env envs)))
           (handle_response fmt (''balance-sheet-statement/'' @ upper (strip raw)) (outcome (balance_env envs)))
           (handle_response fmt (''cash-flow-statement/'' @ upper (strip raw)) (outcome (cash_flow_env envs)))
         = Inr r"
  shows "\<exists>self' evs. get_key_financials fmt self (JStr raw) envs = Inr (r, self', evs)"
proof -
  let ?t = "upper (strip raw)"
  obtain s1 e1 where 1: "make_request fmt self (''ratios-ttm/'' @ ?t) (ratios_env envs) =
      Inr (handle_response fmt (''ratios-ttm/'' @ ?t) (outcome (ratios_env envs)), s1, e1)"
      "max_rpm s1 = max_rpm self"
    using make_request_total[OF assms(1)] by blast
  then have "1 \<le> max_rpm s1" using assms(1) by simp
  then obtain s2 e2 where 2: "make_request fmt s1 (''income-statement/'' @ ?t) (income_env envs) =
      Inr (handle_response fmt (''income-statement/'' @ ?t) (outcome (income_env envs)), s2, e2)"
      "max_rpm s2 = max_rpm s1"
    using make_request_total by blast
  then have "1 \<le> max_rpm s2" using \<open>1 \<le> max_rpm s1\<close> by simp
  then obtain s3 e3 where 3: "make_request fmt s2 (''balance-sheet-statement/'' @ ?t) (balance_env envs) =
      Inr (handle_response fmt (''balance-sheet-statement/'' @ ?t) (outcome (balance_env envs)), s3, e3)"
      "max_rpm s3 = max_rpm s2"
    using make_request_total by blast
  then have "1 \<le> max_rpm s3" using \<open>1 \<le> max_rpm s2\<close> by simp
  then obtain s4 e4 where 4: "make_request fmt s3 (''cash-flow-statement/'' @ ?t) (cash_flow_env envs) =
      Inr (handle_response fmt (''cash-flow-statement/'' @ ?t) (outcome (cash_flow_env envs)), s4, e4)"
    using make_request_total by blast
  show ?thesis using assms(2,3) 1(1) 2(1) 3(1) 4
    by (simp add: get_key_financials_def)
qed

lemma assemble_ratios_failed:
  assumes "is_error ra"
  shows "assemble_financials t ra (JList (JDict inc # incs)) (JList (JDict bal # bals)) (JList (JDict cf # cfs)) =
     Inr (JDict [(''profitability'',
                    JDict [(''grossMargin'', JNull), (''operatingMargin'', JNull), (''netMargin'', JNull),
                           (''roe'', JNull), (''roa'', JNull)]),
                 (''valuation'',
                    JDict [(''pe'', JNull), (''pb'', JNull), (''ps'', JNull), (''pfcf'', JNull)]),
                 (''health'',
                    JDict [(''currentRatio'', JNull), (''debtToEquity'', JNull), (''interestCoverage'', JNull)]),
                 (''growth'',
                    JDict [(''revenue'', get inc ''revenue''), (''netIncome'', get inc ''netIncome''),
                           (''totalAssets'', get bal ''totalAssets''), (''totalDebt'', get bal ''totalDebt''),
                           (''freeCashFlow'', get cf ''freeCashFlow'')]),
                 (''symbol'', JStr t)])"
proof -
  obtain d where "ra = JDict d" using assms is_error_dict by blast
  then show ?thesis
    by (simp add: assemble_financials_def entries_dict get_def get_default_def del: entries.simps)
qed




text \<open>
  Claim C4, as stated, fails: when the news endpoint answers with the empty list,
  \<open>_make_request\<close> turns the empty body into an error value and
  \<open>get_news_sentiment\<close> returns a record with an \<open>error\<close> key and no \<open>count\<close>.
\<close>

theorem news_empty_list_counterexample:
  "result_of (get_news_sentiment no_fmt demo_tool (JStr ''AAPL'') (demo_env (Body (JList [])))) =
     Some (JDict [(''error'', JStr ''Empty response from FMP API for stock_news''),
                  (''articles'', JList []),
                  (''symbol'', JStr ''AAPL'')]) \<and>
   is_error (JDict [(''error'', JStr ''Empty response from FMP API for stock_news''),
                  (''articles'', JList []),
                  (''symbol'', JStr ''AAPL'')])"
  by (simp add: get_news_sentiment_def strip_AAPL demo_request handle_response_def error_dict_def
        has_key_def get_def get_default_def py_format_def result_of_def Let_def)

text \<open>
  Claim C4, amended. For every valid ticker, when the news endpoint responds with an
  empty article list, the client reports the empty body as the error
  \<open>Empty response from FMP API for stock_news\<close> and \<open>get_news_sentiment\<close> returns the
  record with that \<open>error\<close>, \<open>articles\<close> the empty list and \<open>symbol\<close> set. A list
  with at least one article, whenever the function returns, gives a record with no
  \<open>error\<close> key, one entry of \<open>articles\<close> per article, \<open>count\<close> their number and
  \<open>symbol\<close> set.
\<close>

theorem news_empty_list_is_error:
  assumes "1 \<le> max_rpm self" and "raw \<noteq> []"
  shows "(outcome env = Body (JList []) \<longrightarrow>
           (\<exists>self' evs. get_news_sentiment fmt self (JStr raw) env =
              Inr (JDict [(''error'', JStr ''Empty response from FMP API for stock_news''),
                          (''articles'', JList []),
                          (''symbol'', JStr (upper (strip raw)))], self', evs)))
       \<and> (\<forall>a rest r self' evs. outcome env = Body (JList (a # rest)) \<and>
             get_news_sentiment fmt self (JStr raw) env = Inr (r, self', evs) \<longrightarrow>
           (\<exists>arts. r = JDict [(''articles'', JList arts),
                               (''count'', JInt (int (length (a # rest)))),
                               (''symbol'', JStr (upper (strip raw)))]
                  \<and> length arts = length (a # rest) \<and> \<not> is_error r))"
proof -
  obtain self' evs where mr: "make_request fmt self ''stock_news'' env =
      Inr (handle_response fmt ''stock_news'' (outcome env), self', evs)"
    using make_request_total[OF assms(1)] by blast
  have 1: "get_news_sentiment fmt self (JStr raw) env =
              Inr (JDict [(''error'', JStr ''Empty response from FMP API for stock_news''),
                          (''articles'', JList []),
                          (''symbol'', JStr (upper (strip raw)))], self', evs)"
    if "outcome env = Body (JList [])"
    using that mr assms(2)
    by (simp add: get_news_sentiment_def handle_response_def error_dict_def has_key_def
          get_def get_default_def Let_def)
  have 2: "\<exists>arts. r = JDict [(''articles'', JList arts),
                               (''count'', JInt (int (length (a # rest)))),
                               (''symbol'', JStr (upper (strip raw)))]
                  \<and> length arts = length (a # rest) \<and> \<not> is_error r"
    if o: "outcome env = Body (JList (a # rest))"
      and g: "get_news_sentiment fmt self (JStr raw) env = Inr (r, s, e)" for a rest r s e
  proof -
    have h: "handle_response fmt ''stock_news'' (outcome env) = JList (a # rest)"
      using o by (simp add: handle_response_def)
    obtain arts where arts: "news_articles (a # rest) = Inr arts"
      and r: "r = JDict [(''articles'', JList arts), (''count'', JInt (int (length arts))),
                         (''symbol'', JStr (upper (strip raw)))]"
      using g mr assms(2) h
      by (auto simp: get_news_sentiment_def Let_def simp del: news_articles.simps split: sum.splits)
    have "length arts = length (a # rest)" using news_articles_length[OF arts] .
    then show ?thesis using r by (simp add: has_key_def)
  qed
  show ?thesis using 1 2 by blast
qed

text \<open>The theorem at the ticker \<open>AAPL\<close>, for the empty list and for a list of one article.\<close>

theorem news_empty_list_is_error_witness:
  "result_of (get_news_sentiment no_fmt demo_tool (JStr ''AAPL'') (demo_env (Body (JList [])))) =
     Some (JDict [(''error'', JStr ''Empty response from FMP API for stock_news''),
                  (''articles'', JList []),
                  (''symbol'', JStr ''AAPL'')])
   \<and> (\<exists>arts. result_of (get_news_sentiment no_fmt demo_tool (JStr ''AAPL'')
                  (demo_env (Body (JList [JDict []])))) =
        Some (JDict [(''articles'', JList arts), (''count'', JInt 1), (''symbol'', JStr ''AAPL'')]))"
proof -
  have m: "1 \<le> max_rpm demo_tool" by (simp add: demo_tool_def)
  have n: "\<exists>r. get_news_sentiment no_fmt demo_tool (JStr ''AAPL'') (demo_env (Body (JList [JDict []]))) =
      Inr (r, demo_tool\<lparr>request_times := [0]\<rparr>, [NetCall ''stock_news'' [0]])"
    by (simp add: get_news_sentiment_def strip_AAPL demo_request handle_response_def
          rec_get_default_def get_default_def has_key_def Let_def)
  have o1: "outcome (demo_env (Body (JList []))) = Body (JList [])"
    and o2: "outcome (demo_env (Body (JList [JDict []]))) = Body (JList [JDict []])"
    by (simp_all add: demo_env_def)
  show ?thesis
    using news_empty_list_is_error[OF m, of "''AAPL''" "demo_env (Body (JList []))" no_fmt]
          news_empty_list_is_error[OF m, of "''AAPL''" "demo_env (Body (JList [JDict []]))" no_fmt]
          n o1 o2
    by (auto simp: result_of_def strip_AAPL)
qed

text \<open>
  Claim C5. For every valid ticker (a non-empty string) and a client with a budget of
  at least 1, \<open>get_key_financials\<close> returns the aggregate error record if and only if
  all four sub-requests return errors: if all four fail it returns that record, and
  if not all four fail, nothing it returns is an error record. In particular, when
  the ratios request fails and the income, balance and cash-flow requests each
  return a list whose first element is a record, the result has every metric of
  \<open>profitability\<close>, \<open>valuation\<close> and \<open>health\<close> equal to \<open>None\<close> and the \<open>growth\<close>
  section read from the three records.
\<close>

theorem financials_error_iff_all_failed:
  assumes "1 \<le> max_rpm self" and "raw \<noteq> []"
  shows
   "let t = upper (strip raw);
        ratios = handle_response fmt (''ratios-ttm/'' @ t) (outcome (ratios_env envs));
        income = handle_response fmt (''income-statement/'' @ t) (outcome (income_env envs));
        balance = handle_response fmt (''balance-sheet-statement/'' @ t) (outcome (balance_env envs));
        cash_flow = handle_response fmt (''cash-flow-statement/'' @ t) (outcome (cash_flow_env envs));
        all_failed = (is_error ratios \<and> is_error income \<and> is_error balance \<and> is_error cash_flow)
    in (all_failed \<longrightarrow>
          (\<exists>self' evs. get_key_financials fmt self (JStr raw) envs =
             Inr (error_dict ''Could not retrieve financial data'', self', evs)))
     \<and> (\<not> all_failed \<longrightarrow>
          (\<forall>r self' evs. get_key_financials fmt self (JStr raw) envs = Inr (r, self', evs)
             \<longrightarrow> \<not> is_error r))
     \<and> (\<forall>inc incs bal bals cf cfs.
          is_error ratios \<and> income = JList (JDict inc # incs) \<and> balance = JList (JDict bal # bals)
            \<and> cash_flow = JList (JDict cf # cfs) \<longrightarrow>
          (\<exists>self' evs. get_key_financials fmt self (JStr raw) envs =
             Inr (JDict [(''profitability'',
                    JDict [(''grossMargin'', JNull), (''operatingMargin'', JNull), (''netMargin'', JNull),
                           (''roe'', JNull), (''roa'', JNull)]),
                 (''valuation'',
                    JDict [(''pe'', JNull), (''pb'', JNull), (''ps'', JNull), (''pfcf'', JNull)]),
                 (''health'',
                    JDict [(''currentRatio'', JNull), (''debtToEquity'', JNull), (''interestCoverage'', JNull)]),
                 (''growth'',
                    JDict [(''revenue'', get inc ''revenue''), (''netIncome'', get inc ''netIncome''),
                           (''totalAssets'', get bal ''totalAssets''), (''totalDebt'', get bal ''totalDebt''),
                           (''freeCashFlow'', get cf ''freeCashFlow'')]),
                 (''symbol'', JStr t)], self', evs)))"
proof -
  let ?t = "upper (strip raw)"
  let ?ra = "handle_response fmt (''ratios-ttm/'' @ ?t) (outcome (ratios_env envs))"
  let ?inc = "handle_response fmt (''income-statement/'' @ ?t) (outcome (income_env envs))"
  let ?bal = "handle_response fmt (''balance-sheet-statement/'' @ ?t) (outcome (balance_env envs))"
  let ?cf = "handle_response fmt (''cash-flow-statement/'' @ ?t) (outcome (cash_flow_env envs))"
  let ?all = "is_error ?ra \<and> is_error ?inc \<and> is_error ?bal \<and> is_error ?cf"
  have A: "\<exists>self' evs. get_key_financials fmt self (JStr raw) envs =
             Inr (error_dict ''Could not retrieve financial data'', self', evs)" if ?all
  proof -
    have "assemble_financials ?t ?ra ?inc ?bal ?cf = Inr (error_dict ''Could not retrieve financial data'')"
      using that by (simp add: assemble_financials_def)
    then show ?thesis by (rule get_key_financials_value[OF assms])
  qed
  have B: "\<not> is_error r" if "\<not> ?all" and "get_key_financials fmt self (JStr raw) envs = Inr (r, s, e)" for r s e
    using assemble_financials_cases[OF get_key_financials_Inr[OF that(2) assms(2)]] that(1)
    by (auto simp: has_key_def)
  have C: "\<exists>self' evs. get_key_financials fmt self (JStr raw) envs =
             Inr (JDict [(''profitability'',
                    JDict [(''grossMargin'', JNull), (''operatingMargin'', JNull), (''netMargin'', JNull),
                           (''roe'', JNull), (''roa'', JNull)]),
                 (''valuation'',
                    JDict [(''pe'', JNull), (''pb'', JNull), (''ps'', JNull), (''pfcf'', JNull)]),
                 (''health'',
                    JDict [(''currentRatio'', JNull), (''debtToEquity'', JNull), (''interestCoverage'', JNull)]),
                 (''growth'',
                    JDict [(''revenue'', get inc ''revenue''), (''netIncome'', get inc ''netIncome''),
                           (''totalAssets'', get bal ''totalAssets''), (''totalDebt'', get bal ''totalDebt''),
                           (''freeCashFlow'', get cf ''freeCashFlow'')]),
                 (''symbol'', JStr ?t)], self', evs)"
    if "is_error ?ra" "?inc = JList (JDict inc # incs)" "?bal = JList (JDict bal # bals)"
       "?cf = JList (JDict cf # cfs)" for inc incs bal bals cf cfs
    using get_key_financials_value[OF assms, of fmt envs] assemble_ratios_failed[OF that(1), of ?t inc incs bal bals cf cfs]
    unfolding that(2,3,4) by blast
  show ?thesis unfolding Let_def using A B C by blast
qed

text \<open>
  The theorem at the ticker \<open>AAPL\<close>: once with all four requests failing, once with
  only the ratios request failing.
\<close>

theorem financials_error_iff_all_failed_witness:
  "result_of (get_key_financials no_fmt demo_tool (JStr ''AAPL'') failed_financials) =
     Some (error_dict ''Could not retrieve financial data'')
   \<and> result_of (get_key_financials no_fmt demo_tool (JStr ''AAPL'') demo_financials) =
     Some (JDict [(''profitability'',
                    JDict [(''grossMargin'', JNull), (''operatingMargin'', JNull), (''netMargin'', JNull),
                           (''roe'', JNull), (''roa'', JNull)]),
                 (''valuation'',
                    JDict [(''pe'', JNull), (''pb'', JNull), (''ps'', JNull), (''pfcf'', JNull)]),
                 (''health'',
                    JDict [(''currentRatio'', JNull), (''debtToEquity'', JNull), (''interestCoverage'', JNull)]),
                 (''growth'',
                    JDict [(''revenue'', JInt 100), (''netIncome'', JInt 7),
                           (''totalAssets'', JInt 50), (''totalDebt'', JNull),
                           (''freeCashFlow'', JInt 3)]),
                 (''symbol'', JStr ''AAPL'')])"
proof -
  have m: "1 \<le> max_rpm demo_tool" by (simp add: demo_tool_def)
  have r: "''AAPL'' \<noteq> []" by simp
  show ?thesis
    using financials_error_iff_all_failed[OF m r, of no_fmt failed_financials]
          financials_error_iff_all_failed[OF m r, of no_fmt demo_financials]
    by (auto simp: Let_def result_of_def strip_AAPL demo_env_def demo_financials_def
          failed_financials_def handle_response_def error_dict_def has_key_def
          get_def get_default_def)
qed

text \<open>
  Claim C8 at a ticker of three spaces, which is empty after trimming and
  uppercasing. \<open>get_stock_quote\<close>, \<open>get_news_sentiment\<close> and \<open>get_key_financials\<close> do
  not short-circuit: they issue their requests with the empty symbol (\<open>quote/\<close>,
  \<open>stock_news\<close>, and the four financial endpoints). Only \<open>get_company_profile\<close>, which
  tests the ticker again after normalizing it, returns its error record without a
  request.
\<close>

theorem whitespace_ticker_issues_requests:
  "upper (strip ''   '') = [] \<and>
   get_stock_quote no_fmt demo_tool (JStr ''   '') (demo_env Timeout) =
     Inr (JDict [(''error'', JStr ''Request to quote/ timed out after 10 seconds'')],
          demo_tool\<lparr>request_times := [0]\<rparr>, [NetCall ''quote/'' [0]]) \<and>
   get_news_sentiment no_fmt demo_tool (JStr ''   '') (demo_env Timeout) =
     Inr (JDict [(''error'', JStr ''Request to stock_news timed out after 10 seconds''),
                 (''articles'', JList []), (''symbol'', JStr [])],
          demo_tool\<lparr>request_times := [0]\<rparr>, [NetCall ''stock_news'' [0]]) \<and>
   events_of (get_key_financials no_fmt demo_tool (JStr ''   '')
        \<lparr>ratios_env = demo_env Timeout, income_env = demo_env Timeout,
         balance_env = demo_env Timeout, cash_flow_env = demo_env Timeout\<rparr>) =
     Some [NetCall ''ratios-ttm/'' [0], NetCall ''income-statement/'' [0, 0],
           NetCall ''balance-sheet-statement/'' [0, 0, 0], NetCall ''cash-flow-statement/'' [0, 0, 0, 0]] \<and>
   get_company_profile no_fmt demo_tool (JStr ''   '') (demo_env Timeout) =
     Inr (JDict [(''error'', JStr ''Empty ticker symbol''), (''name'', JStr ''Unknown''),
                 (''description'', JStr ''Please provide a valid ticker symbol'')],
          demo_tool, [])"
  by (simp add: get_stock_quote_def get_news_sentiment_def get_company_profile_def
        get_key_financials_def assemble_financials_def events_of_def
        strip_blank demo_request handle_response_def error_dict_def
        has_key_def get_def get_default_def py_format_def
        make_request_def rate_limit_def demo_tool_def demo_env_def prune_def Let_def)

section \<open>Properties of the analysis run\<close>


lemma then_do_Inl: "then_do m f = Inl e \<longleftrightarrow> (m = Inl e \<or> (\<exists>x. m = Inr x \<and> f x = Inl e))"
  by (cases m) (auto simp: then_do_def)


lemma init_tool_Inr: "(\<exists>t. init_tool k n = Inr t) \<longleftrightarrow> k \<noteq> []"
  by (auto simp: init_tool_def)






end
